theory Spec2Isabelle
  imports Complex_Main "HOL-Library.Sublist"
begin

section \<open>Data model\<close>

text \<open>
  The \<open>Receipt\<close> type is imported from the receipt service; the component reads the
  fields below. The two \<open>name\<close> fields and the two \<open>_id\<close> fields of the source are
  told apart by a prefix, since record fields share one name space here.
  JavaScript strings are modelled as \<open>string\<close>, restricted to the characters of
  \<open>char\<close>; \<open>finalPrice\<close> is a finite number.
\<close>

record user =
  user_name :: string
  user_email :: string

record service =
  service_name :: string

record booking =
  booking_id :: string
  user :: user
  service :: service
  status :: string

record receipt =
  receipt_id :: string
  booking :: booking
  finalPrice :: rat
  servicePersonnelName :: string
  completionDate :: string

text \<open>The component's \<open>useState\<close> cells. \<open>itemsPerPage\<close> has no setter and stays 10.\<close>

record state =
  receipts :: "receipt list"
  isLoading :: bool
  error :: "string option"
  searchTerm :: string
  selectedReceipt :: "receipt option"
  isModalOpen :: bool
  currentPage :: int

definition initialState :: state where
  "initialState =
     \<lparr>receipts = [], isLoading = False, error = None, searchTerm = [],
      selectedReceipt = None, isModalOpen = False, currentPage = 1\<rparr>"

definition itemsPerPage :: nat where
  "itemsPerPage = 10"

section \<open>String primitives\<close>

text \<open>\<open>String.prototype.toLowerCase\<close> on the letters \<open>A\<close> to \<open>Z\<close>; other characters stay.\<close>

definition toLowerCaseChar :: "char \<Rightarrow> char" where
  "toLowerCaseChar c =
     (let n = (of_char c :: nat) in if 65 \<le> n \<and> n \<le> 90 then char_of (n + 32) else c)"

definition toLowerCase :: "string \<Rightarrow> string" where
  "toLowerCase s = map toLowerCaseChar s"

text \<open>
  \<open>s.includes(t)\<close> (the name \<open>includes\<close> is reserved here): true when \<open>t\<close>
  starts at some index of \<open>s\<close>, the index \<open>length s\<close> included (where only the
  empty \<open>t\<close> fits).
\<close>

fun includesStr :: "string \<Rightarrow> string \<Rightarrow> bool" where
  "includesStr [] t = (t = [])"
| "includesStr (c # s) t = (prefix t (c # s) \<or> includesStr s t)"

section \<open>Filter\<close>

text \<open>The callback given to \<open>receipts.filter\<close>, with the search term it closes over.\<close>

definition receiptMatches :: "string \<Rightarrow> receipt \<Rightarrow> bool" where
  "receiptMatches search r =
     (let searchLower = toLowerCase search in
        includesStr (toLowerCase (receipt_id r)) searchLower \<or>
        includesStr (toLowerCase (booking_id (booking r))) searchLower \<or>
        includesStr (toLowerCase (user_name (user (booking r)))) searchLower \<or>
        includesStr (toLowerCase (user_email (user (booking r)))) searchLower \<or>
        includesStr (toLowerCase (service_name (service (booking r)))) searchLower \<or>
        includesStr (toLowerCase (servicePersonnelName r)) searchLower \<or>
        includesStr (toLowerCase (status (booking r))) searchLower)"

definition filteredReceipts :: "receipt list \<Rightarrow> string \<Rightarrow> receipt list" where
  "filteredReceipts rs search = filter (receiptMatches search) rs"

section \<open>Paginator\<close>

text \<open>
  \<open>Array.prototype.slice(start, end)\<close> on integer arguments: a negative index counts
  from the end, both indices are clamped to the array, and an empty range gives \<open>[]\<close>.
\<close>

definition slice :: "'a list \<Rightarrow> int \<Rightarrow> int \<Rightarrow> 'a list" where
  "slice xs start end' =
     (let len = int (length xs);
          k = (if start < 0 then max (len + start) 0 else min start len);
          final = (if end' < 0 then max (len + end') 0 else min end' len)
      in take (nat (final - k)) (drop (nat k) xs))"

definition indexOfLastReceipt :: "int \<Rightarrow> int" where
  "indexOfLastReceipt page = page * int itemsPerPage"

definition indexOfFirstReceipt :: "int \<Rightarrow> int" where
  "indexOfFirstReceipt page = indexOfLastReceipt page - int itemsPerPage"

definition filtered :: "state \<Rightarrow> receipt list" where
  "filtered st = filteredReceipts (receipts st) (searchTerm st)"

definition currentReceipts :: "state \<Rightarrow> receipt list" where
  "currentReceipts st =
     slice (filtered st) (indexOfFirstReceipt (currentPage st)) (indexOfLastReceipt (currentPage st))"

text \<open>\<open>Math.ceil(filteredReceipts.length / itemsPerPage)\<close>, for a length \<open>n\<close>.\<close>

definition pageCount :: "nat \<Rightarrow> int" where
  "pageCount n = \<lceil>(of_nat n :: rat) / of_nat itemsPerPage\<rceil>"

section \<open>Event handlers\<close>

definition paginate :: "int \<Rightarrow> state \<Rightarrow> state" where
  "paginate pageNumber st = st\<lparr>currentPage := pageNumber\<rparr>"

definition handleViewReceipt :: "receipt \<Rightarrow> state \<Rightarrow> state" where
  "handleViewReceipt r st = st\<lparr>selectedReceipt := Some r, isModalOpen := True\<rparr>"

text \<open>The search input's \<open>onChange\<close>: \<open>setSearchTerm(e.target.value)\<close>.\<close>

definition onSearchChange :: "string \<Rightarrow> state \<Rightarrow> state" where
  "onSearchChange v st = st\<lparr>searchTerm := v\<rparr>"

definition onClose :: "state \<Rightarrow> state" where
  "onClose st = st\<lparr>isModalOpen := False\<rparr>"

text \<open>The \<open>onClick\<close> and \<open>disabled\<close> attributes of the Previous and Next buttons.\<close>

definition previousOnClick :: "state \<Rightarrow> state" where
  "previousOnClick st = paginate (if currentPage st > 1 then currentPage st - 1 else 1) st"

definition previousDisabled :: "state \<Rightarrow> bool" where
  "previousDisabled st = (currentPage st = 1)"

definition nextOnClick :: "state \<Rightarrow> state" where
  "nextOnClick st =
     paginate (if currentPage st < pageCount (length (filtered st))
               then currentPage st + 1 else currentPage st) st"

definition nextDisabled :: "state \<Rightarrow> bool" where
  "nextDisabled st = (currentPage st = pageCount (length (filtered st)))"

text \<open>Activating a button: a disabled button fires no click event.\<close>

definition activatePrevious :: "state \<Rightarrow> state" where
  "activatePrevious st = (if previousDisabled st then st else previousOnClick st)"

definition activateNext :: "state \<Rightarrow> state" where
  "activateNext st = (if nextDisabled st then st else nextOnClick st)"

section \<open>Loader\<close>

text \<open>
  The value caught by \<open>catch (err: any)\<close>: the error object the service rejects with,
  of which only \<open>err.message\<close> is read (\<open>None\<close> when the property is undefined). The
  effects outside the component's state are returned as a list, in the order they happen.
\<close>

record thrown =
  message :: "string option"

datatype effect = ConsoleError string thrown | ToastError string

text \<open>\<open>a || b\<close> on a string that may be undefined: the empty string is falsy too.\<close>

definition orElse :: "string option \<Rightarrow> string \<Rightarrow> string" where
  "orElse a b = (case a of None \<Rightarrow> b | Some m \<Rightarrow> if m = [] then b else m)"

text \<open>
  \<open>fetchReceipts\<close> up to the \<open>await\<close>, and from the moment the promise of
  \<open>getAllReceipts\<close> settles: \<open>Inr data\<close> when it resolves, \<open>Inl err\<close> when it rejects.
\<close>

definition fetchReceipts_pending :: "state \<Rightarrow> state" where
  "fetchReceipts_pending st = st\<lparr>isLoading := True, error := None\<rparr>"

definition fetchReceipts_settled :: "thrown + receipt list \<Rightarrow> state \<Rightarrow> state \<times> effect list" where
  "fetchReceipts_settled outcome st =
     (case outcome of
        Inr data \<Rightarrow> (st\<lparr>receipts := data, isLoading := False\<rparr>, [])
      | Inl err \<Rightarrow>
          (st\<lparr>error := Some (orElse (message err) ''Failed to load receipts''),
              isLoading := False\<rparr>,
           [ConsoleError ''Error fetching receipts:'' err,
            ToastError ''Failed to load receipts'']))"

definition fetchReceipts :: "thrown + receipt list \<Rightarrow> state \<Rightarrow> state \<times> effect list" where
  "fetchReceipts outcome st = fetchReceipts_settled outcome (fetchReceipts_pending st)"

fun isToast :: "effect \<Rightarrow> bool" where
  "isToast (ToastError m) = True"
| "isToast (ConsoleError m e) = False"

section \<open>Formatting\<close>

text \<open>
  A JavaScript \<open>Date\<close>: a time value in milliseconds, or the invalid date that
  \<open>new Date\<close> gives for a string it cannot parse. \<open>new Date\<close> and the \<open>format\<close> of
  the date library are outside the repository and are parameters of \<open>formatDate\<close>:
  \<open>newDate\<close> parses, \<open>fmt\<close> is \<open>format\<close> at the pattern \<open>'MMM dd, yyyy HH:mm'\<close>,
  with \<open>Inl\<close> for an exception. \<open>formatCurrency\<close> wraps \<open>Intl.NumberFormat\<close> only
  and is a parameter of the renderer.
\<close>

datatype jsdate = InvalidDate | ValidDate int

datatype js_error = RangeError

definition formatDate ::
  "(string \<Rightarrow> jsdate) \<Rightarrow> (jsdate \<Rightarrow> js_error + string) \<Rightarrow> string \<Rightarrow> string" where
  "formatDate newDate fmt dateString =
     (case fmt (newDate dateString) of Inr out \<Rightarrow> out | Inl e \<Rightarrow> dateString)"


section \<open>Rendering\<close>

record row =
  rowKey :: string
  idCell :: string
  customerCell :: string
  serviceCell :: string
  priceCell :: string
  statusCell :: string
  statusGreen :: bool
  dateCell :: string
  viewTarget :: receipt

datatype tbody = Rows "row list" | EmptyStateRow string

record pagination =
  showingFrom :: int
  showingTo :: int
  showingOf :: nat
  previousIsDisabled :: bool
  pageButtons :: "(int \<times> bool) list"
  nextIsDisabled :: bool



record formatters =
  newDate :: "string \<Rightarrow> jsdate"
  fmt :: "jsdate \<Rightarrow> js_error + string"
  formatCurrency :: "rat \<Rightarrow> string"

definition renderRow :: "formatters \<Rightarrow> receipt \<Rightarrow> row" where
  "renderRow f r =
     \<lparr>rowKey = receipt_id r,
      idCell = receipt_id r,
      customerCell = user_name (user (booking r)),
      serviceCell = service_name (service (booking r)),
      priceCell = formatCurrency f (finalPrice r),
      statusCell = status (booking r),
      statusGreen = (status (booking r) = ''completed''),
      dateCell = formatDate (newDate f) (fmt f) (completionDate r),
      viewTarget = r\<rparr>"

definition renderBody :: "formatters \<Rightarrow> state \<Rightarrow> tbody" where
  "renderBody f st =
     (if length (currentReceipts st) > 0
      then Rows (map (renderRow f) (currentReceipts st))
      else EmptyStateRow (if searchTerm st \<noteq> [] then ''No receipts found matching your search.''
                          else ''No receipts found.''))"

text \<open>
  The page buttons: \<open>Array.from({ length: L }).map((_, index) => ...)\<close>, each with its
  label \<open>index + 1\<close>, which is also the page its click passes to \<open>paginate\<close>, and
  whether it is highlighted as the current page.
\<close>

definition renderPageButtons :: "state \<Rightarrow> (int \<times> bool) list" where
  "renderPageButtons st =
     map (\<lambda>index. (int index + 1, currentPage st = int index + 1))
         [0 ..< nat (pageCount (length (filtered st)))]"

definition renderPagination :: "state \<Rightarrow> pagination option" where
  "renderPagination st =
     (if length (filtered st) > 0
      then Some
        \<lparr>showingFrom = indexOfFirstReceipt (currentPage st) + 1,
         showingTo = (if indexOfLastReceipt (currentPage st) > int (length (filtered st))
                      then int (length (filtered st))
                      else indexOfLastReceipt (currentPage st)),
         showingOf = length (filtered st),
         previousIsDisabled = previousDisabled st,
         pageButtons = renderPageButtons st,
         nextIsDisabled = nextDisabled st\<rparr>
      else None)"


section \<open>The filter in the words of the specification\<close>




section \<open>Example data\<close>

definition sampleReceipt :: "string \<Rightarrow> string \<Rightarrow> string \<Rightarrow> receipt" where
  "sampleReceipt rid customer date =
     \<lparr>receipt_id = rid,
      booking = \<lparr>booking_id = ''bk-'' @ rid,
                 user = \<lparr>user_name = customer, user_email = ''client@example.com''\<rparr>,
                 service = \<lparr>service_name = ''Cleaning''\<rparr>,
                 status = ''completed''\<rparr>,
      finalPrice = 50,
      servicePersonnelName = ''Sam'',
      completionDate = date\<rparr>"

definition sampleReceipts :: "receipt list" where
  "sampleReceipts =
     map (\<lambda>rid. sampleReceipt rid ''Alice'' ''2024-01-15T10:30:00Z'')
       [''r01'', ''r02'', ''r03'', ''r04'', ''r05'', ''r06'', ''r07'', ''r08'', ''r09'', ''r10'',
        ''r11'']
     @ [sampleReceipt ''r12'' ''Bob'' ''not-a-date'']"

text \<open>Formatters that know the one valid date of the example data.\<close>

definition sampleFormatters :: formatters where
  "sampleFormatters =
     \<lparr>newDate = (\<lambda>s. if s = ''2024-01-15T10:30:00Z'' then ValidDate 1705314600000
                      else InvalidDate),
      fmt = (\<lambda>d. case d of InvalidDate \<Rightarrow> Inl RangeError
                  | ValidDate t \<Rightarrow> Inr (if t = 1705314600000 then ''Jan 15, 2024 10:30''
                                       else ''another date'')),
      formatCurrency = (\<lambda>amount. if amount = 50 then ''$50.00'' else ''another amount'')\<rparr>"

text \<open>The state after the receipts have loaded, and on page 2 of them.\<close>

definition loadedState :: state where
  "loadedState = fst (fetchReceipts (Inr sampleReceipts) initialState)"

definition page2State :: state where
  "page2State = paginate 2 loadedState"

section \<open>Properties of the filter\<close>

lemma includesStr_sublist: "includesStr s t \<longleftrightarrow> sublist t s"
  by (induction s) (auto simp: sublist_Cons_right)


lemma receiptMatches_empty: "receiptMatches [] r"
  by (simp add: receiptMatches_def toLowerCase_def includesStr_sublist)

lemma count_list_filter_le: "count_list (filter P xs) x \<le> count_list xs x"
  by (induction xs) auto




text \<open>
  Claim C4. For every search term \<open>t\<close> and collection \<open>C\<close>, the filtered collection is
  a subsequence of \<open>C\<close>: it is obtained from \<open>C\<close> by deleting elements, so every kept
  receipt occurs in \<open>C\<close>, the kept receipts stand in the order they have in \<open>C\<close>, and none
  is duplicated.
\<close>

theorem filter_is_subsequence:
  "subseq (filteredReceipts C t) C \<and>
   set (filteredReceipts C t) \<subseteq> set C \<and>
   (\<forall>r. count_list (filteredReceipts C t) r \<le> count_list C r)"
  by (simp add: filteredReceipts_def count_list_filter_le)

text \<open>
  Claim C7. For every collection \<open>C\<close>, filtering with the empty search term gives \<open>C\<close>
  itself: every receipt passes.
\<close>

theorem filter_empty_term_identity:
  "filteredReceipts C [] = C \<and> (\<forall>r. receiptMatches [] r)"
  by (simp add: filteredReceipts_def receiptMatches_empty)

text \<open>
  Claim C8. For every collection \<open>C\<close> and search term \<open>t\<close>, filtering twice with \<open>t\<close>
  gives what filtering once gives.
\<close>

theorem filter_idempotent:
  "filteredReceipts (filteredReceipts C t) t = filteredReceipts C t"
  by (simp add: filteredReceipts_def)

section \<open>Properties of the paginator\<close>

lemma take_drop_nth: "take n (drop k xs) = map ((!) xs) [k ..< min (k + n) (length xs)]"
  by (auto intro!: nth_equalityI)

lemma pageCount_div: "pageCount n = (int n + 9) div 10"
proof -
  have "\<lceil>(of_int (int n) :: rat) / of_int 10\<rceil> = - (- int n div 10)"
    by (rule ceiling_divide_eq_div)
  also have "\<dots> = (int n + 9) div 10" by presburger
  finally show ?thesis by (simp add: pageCount_def itemsPerPage_def)
qed

lemma pageCount_real: "pageCount n = \<lceil>real n / 10\<rceil>"
proof -
  have "\<lceil>real_of_int (int n) / real_of_int 10\<rceil> = - (- int n div 10)"
    by (rule ceiling_divide_eq_div)
  also have "\<dots> = (int n + 9) div 10" by presburger
  finally show ?thesis by (simp add: pageCount_div)
qed

lemma pageCount_nonneg: "0 \<le> pageCount n"
  by (simp add: pageCount_div)

lemma slice_page:
  assumes "1 \<le> p"
  shows "slice xs (indexOfFirstReceipt p) (indexOfLastReceipt p)
         = take 10 (drop (nat ((p - 1) * 10)) xs)"
proof (cases "nat ((p - 1) * 10) \<le> length xs")
  case True
  then show ?thesis
    unfolding slice_def indexOfFirstReceipt_def indexOfLastReceipt_def itemsPerPage_def Let_def
    using assms
    by (auto simp: min_def algebra_simps nat_diff_distrib' intro!: take_all_iff [THEN iffD2])
next
  case False
  then show ?thesis
    unfolding slice_def indexOfFirstReceipt_def indexOfLastReceipt_def itemsPerPage_def Let_def
    using assms by (auto simp: min_def algebra_simps)
qed

lemma concat_chunks: "concat (map (\<lambda>k. take n (drop (k * n) xs)) [0..<m]) = take (m * n) xs"
proof (induction m)
  case 0
  then show ?case by simp
next
  case (Suc m)
  have "take (m * n + n) xs = take (m * n) xs @ take n (drop (m * n) xs)"
    by (rule take_add)
  with Suc show ?case by (simp add: add.commute)
qed

lemma upto_as_upt: "[1 .. int m] = map (\<lambda>k. int k + 1) [0..<m]"
  by (induction m) (simp_all add: upto_rec2)

lemma filtered_paginate: "filtered (paginate p st) = filtered st"
  by (simp add: filtered_def paginate_def)

lemma currentReceipts_page:
  "1 \<le> currentPage st \<Longrightarrow>
   currentReceipts st = take 10 (drop (nat ((currentPage st - 1) * 10)) (filtered st))"
  by (simp add: currentReceipts_def slice_page)

lemma pages_concat:
  "concat (map (\<lambda>p. currentReceipts (paginate p st)) [1 .. pageCount (length (filtered st))])
   = filtered st"
proof -
  let ?F = "filtered st"
  define m where "m = nat (pageCount (length ?F))"
  have m: "pageCount (length ?F) = int m" by (simp add: m_def pageCount_nonneg)
  have "int m = (int (length ?F) + 9) div 10" using m by (simp add: pageCount_div)
  then have cover: "length ?F \<le> m * 10" by linarith
  have page: "currentReceipts (paginate (int k + 1) st) = take 10 (drop (k * 10) ?F)" for k
  proof -
    have cp: "currentPage (paginate (int k + 1) st) = int k + 1" by (simp add: paginate_def)
    have "nat (int k * 10) = k * 10" by (simp add: nat_mult_distrib)
    with currentReceipts_page [of "paginate (int k + 1) st"] cp show ?thesis
      by (simp add: filtered_paginate)
  qed
  have "concat (map (\<lambda>p. currentReceipts (paginate p st)) [1 .. int m])
        = concat (map (\<lambda>k. take 10 (drop (k * 10) ?F)) [0..<m])"
    by (simp add: upto_as_upt comp_def page)
  also have "\<dots> = take (m * 10) ?F" by (rule concat_chunks)
  also have "\<dots> = ?F" using cover by simp
  finally show ?thesis by (simp only: m)
qed

lemma page2_facts:
  "currentPage page2State = 2"
  "map receipt_id (filtered page2State) =
     [''r01'', ''r02'', ''r03'', ''r04'', ''r05'', ''r06'', ''r07'', ''r08'', ''r09'', ''r10'',
      ''r11'', ''r12'']"
  by code_simp+

text \<open>
  Claim C2. For every state with filtered collection \<open>F\<close> of length \<open>N\<close> and page number
  \<open>p \<ge> 1\<close>, the page shown is the contiguous slice of \<open>F\<close> at the indices from
  \<open>(p - 1) * 10\<close> up to, not including, \<open>p * 10\<close> (cut at the end of \<open>F\<close>); the page
  buttons are numbered 1 to \<open>ceil (N / 10)\<close>, so there are \<open>ceil (N / 10)\<close> of them; and the
  slices of the pages 1 to \<open>ceil (N / 10)\<close>, concatenated in this order, give \<open>F\<close> back.
\<close>

theorem paginator_slices_and_page_count:
  "(1 \<le> currentPage st \<longrightarrow>
      currentReceipts st = take 10 (drop (nat ((currentPage st - 1) * 10)) (filtered st)) \<and>
      currentReceipts st =
        map ((!) (filtered st))
          [nat ((currentPage st - 1) * 10) ..<
           min (nat (currentPage st * 10)) (length (filtered st))]) \<and>
   int (length (renderPageButtons st)) = \<lceil>real (length (filtered st)) / 10\<rceil> \<and>
   map fst (renderPageButtons st) = [1 .. \<lceil>real (length (filtered st)) / 10\<rceil>] \<and>
   int (case renderPagination st of None \<Rightarrow> 0 | Some controls \<Rightarrow> length (pageButtons controls))
     = \<lceil>real (length (filtered st)) / 10\<rceil> \<and>
   concat (map (\<lambda>p. currentReceipts (paginate p st))
             [1 .. \<lceil>real (length (filtered st)) / 10\<rceil>])
     = filtered st"
proof -
  have a: "1 \<le> currentPage st \<Longrightarrow>
           nat ((currentPage st - 1) * 10) + 10 = nat (currentPage st * 10)"
    by simp
  have b: "map fst (renderPageButtons st) = [1 .. pageCount (length (filtered st))]"
    using upto_as_upt [of "nat (pageCount (length (filtered st)))"]
    by (simp add: renderPageButtons_def comp_def pageCount_nonneg)
  have c: "int (case renderPagination st of None \<Rightarrow> 0
                | Some controls \<Rightarrow> length (pageButtons controls))
           = pageCount (length (filtered st))"
    by (simp add: renderPagination_def renderPageButtons_def pageCount_nonneg pageCount_div)
  show ?thesis
    using pages_concat [of st] a b c
    by (simp add: currentReceipts_page take_drop_nth renderPageButtons_def pageCount_nonneg
        pageCount_real [symmetric])
qed

theorem paginator_slices_and_page_count_witness:
  "1 \<le> currentPage page2State \<and>
   map receipt_id (currentReceipts page2State) = [''r11'', ''r12''] \<and>
   map fst (renderPageButtons page2State) = [1, 2]"
proof -
  have p: "1 \<le> currentPage page2State" by (simp add: page2_facts)
  have n: "length (filtered page2State) = 12"
    using page2_facts(2) [THEN arg_cong, of length] by simp
  have c: "\<lceil>real (length (filtered page2State)) / 10\<rceil> = 2"
    by (simp add: n)
  from paginator_slices_and_page_count [of page2State] p
  have "currentReceipts page2State
          = take 10 (drop (nat ((currentPage page2State - 1) * 10)) (filtered page2State))"
    and "map fst (renderPageButtons page2State)
          = [1 .. \<lceil>real (length (filtered page2State)) / 10\<rceil>]"
    by blast+
  then show ?thesis
    using p page2_facts(2) by (simp add: page2_facts(1) c take_map [symmetric] drop_map [symmetric] upto.simps)
qed

lemma slice_beyond:
  assumes "int (length xs) \<le> indexOfFirstReceipt p"
  shows "slice xs (indexOfFirstReceipt p) (indexOfLastReceipt p) = []"
  using assms
  unfolding slice_def indexOfFirstReceipt_def indexOfLastReceipt_def itemsPerPage_def Let_def
  by (auto simp: min_def)


lemma bob_page2:
  "currentPage (onSearchChange ''BOB'' page2State) = 2"
  "filtered (onSearchChange ''BOB'' page2State) = [sampleReceipt ''r12'' ''Bob'' ''not-a-date'']"
  by code_simp+

section \<open>Page navigation\<close>

text \<open>
  Claim C3, as amended. For every state with page number \<open>p\<close> and last page
  \<open>L = ceil (N / 10)\<close>: activating Previous sets the page to \<open>p - 1\<close> when \<open>p > 1\<close> and
  to 1 otherwise; activating Next sets the page to \<open>p + 1\<close> when \<open>p < L\<close> and otherwise
  leaves the page number as it is. So Next on the last page changes nothing, and for
  \<open>1 \<le> p \<le> L\<close> both buttons stay within 1 and \<open>L\<close>; a page number beyond \<open>L\<close> is not
  brought back to \<open>L\<close> by Next.
\<close>

theorem previous_and_next_navigation:
  "currentPage (activatePrevious st) = (if currentPage st > 1 then currentPage st - 1 else 1) \<and>
   currentPage (activateNext st) =
     (if currentPage st < pageCount (length (filtered st)) then currentPage st + 1
      else currentPage st) \<and>
   (currentPage st = pageCount (length (filtered st)) \<longrightarrow> activateNext st = st) \<and>
   (1 \<le> currentPage st \<and> currentPage st \<le> pageCount (length (filtered st)) \<longrightarrow>
      currentPage (activatePrevious st) = max 1 (currentPage st - 1) \<and>
      currentPage (activateNext st) = min (pageCount (length (filtered st))) (currentPage st + 1))"
  by (auto simp: activatePrevious_def previousDisabled_def previousOnClick_def
      activateNext_def nextDisabled_def nextOnClick_def paginate_def)

theorem previous_and_next_navigation_witness:
  "currentPage page2State = pageCount (length (filtered page2State)) \<and>
   activateNext page2State = page2State \<and>
   currentPage (activatePrevious page2State) = 1"
proof -
  have n: "length (filtered page2State) = 12"
    using page2_facts(2) [THEN arg_cong, of length] by simp
  have l: "currentPage page2State = pageCount (length (filtered page2State))"
    by (simp add: page2_facts(1) n pageCount_div)
  with previous_and_next_navigation [of page2State] show ?thesis
    by (simp add: page2_facts(1))
qed

text \<open>
  The claim as first stated has Next clamp to \<open>L\<close> whenever \<open>p + 1\<close> would exceed \<open>L\<close>.
  On page 2 of the twelve example receipts, a search that keeps one receipt leaves the
  page number at 2 with \<open>L = 1\<close>; the controls are shown, Next is enabled, and activating
  it leaves the page at 2.
\<close>

theorem next_beyond_last_page_counterexample:
  "renderPagination (onSearchChange ''BOB'' page2State) \<noteq> None \<and>
   \<not> nextDisabled (onSearchChange ''BOB'' page2State) \<and>
   pageCount (length (filtered (onSearchChange ''BOB'' page2State)))
     < currentPage (onSearchChange ''BOB'' page2State) + 1 \<and>
   currentPage (activateNext (onSearchChange ''BOB'' page2State))
     \<noteq> pageCount (length (filtered (onSearchChange ''BOB'' page2State)))"
  by (simp add: bob_page2 pageCount_div activateNext_def nextDisabled_def nextOnClick_def
      paginate_def renderPagination_def)

section \<open>Properties of the loader\<close>

text \<open>
  Claim C5. When the fetch fails, the component records an error message (the message of
  the failure, or \<open>Failed to load receipts\<close> when the failure has no message or an empty
  one) as the inline error, emits exactly one error notification, keeps the receipts it
  held, and clears the loading flag, changing nothing else. When the fetch succeeds, the
  held collection is replaced by the fetched one, the error is unset and the loading flag
  is cleared. While the request is pending the loading flag is set.
\<close>

theorem fetch_failure_and_success:
  "(let (st', effects) = fetchReceipts (Inl err) st in
      (\<forall>m. message err = Some m \<and> m \<noteq> [] \<longrightarrow> error st' = Some m) \<and>
      (message err = None \<or> message err = Some [] \<longrightarrow>
         error st' = Some ''Failed to load receipts'') \<and>
      filter isToast effects = [ToastError ''Failed to load receipts''] \<and>
      receipts st' = receipts st \<and>
      isLoading st' = False \<and>
      st' = st\<lparr>error := error st', isLoading := False\<rparr>) \<and>
   fetchReceipts (Inr data) st = (st\<lparr>receipts := data, error := None, isLoading := False\<rparr>, []) \<and>
   isLoading (fetchReceipts_pending st) = True"
  by (auto simp: fetchReceipts_def fetchReceipts_settled_def fetchReceipts_pending_def orElse_def)

theorem fetch_failure_and_success_witness:
  "fetchReceipts (Inl \<lparr>message = Some ''Network Error''\<rparr>) loadedState =
     (loadedState\<lparr>error := Some ''Network Error''\<rparr>,
      [ConsoleError ''Error fetching receipts:'' \<lparr>message = Some ''Network Error''\<rparr>,
       ToastError ''Failed to load receipts''])"
  using fetch_failure_and_success [of "\<lparr>message = Some ''Network Error''\<rparr>" loadedState sampleReceipts]
  apply (simp add: fetchReceipts_def fetchReceipts_settled_def fetchReceipts_pending_def orElse_def
       loadedState_def initialState_def)
  done

section \<open>Date formatting\<close>



section \<open>Empty results\<close>





section \<open>Search and the current page\<close>

text \<open>
  Claim C10. Changing the search term updates the search-term state only; the current
  page number stays as it was. So in every state where the page \<open>p\<close> and the new filtered
  length \<open>N\<close> satisfy \<open>(p - 1) * 10 \<ge> N > 0\<close>, the page slice is empty, although page 1
  of the new results is not, and the table body is the empty-state row.
\<close>

theorem search_change_keeps_page:
  "onSearchChange v st = st\<lparr>searchTerm := v\<rparr> \<and>
   currentPage (onSearchChange v st) = currentPage st \<and>
   ((currentPage st - 1) * 10 \<ge> int (length (filtered (onSearchChange v st))) \<and>
    length (filtered (onSearchChange v st)) > 0 \<longrightarrow>
      currentReceipts (onSearchChange v st) = [] \<and>
      currentReceipts (paginate 1 (onSearchChange v st)) \<noteq> [] \<and>
      renderBody f (onSearchChange v st) = EmptyStateRow
        (if v \<noteq> [] then ''No receipts found matching your search.'' else ''No receipts found.''))"
proof -
  let ?st = "onSearchChange v st"
  have cp: "currentPage ?st = currentPage st" and sv: "searchTerm ?st = v"
    by (simp_all add: onSearchChange_def)
  have empty: "currentReceipts ?st = []"
    if "(currentPage st - 1) * 10 \<ge> int (length (filtered ?st))"
    using that slice_beyond [of "filtered ?st" "currentPage st"]
    by (simp add: currentReceipts_def cp indexOfFirstReceipt_def indexOfLastReceipt_def
        itemsPerPage_def algebra_simps)
  have first: "currentReceipts (paginate 1 ?st) \<noteq> []" if "length (filtered ?st) > 0"
  proof -
    have "currentPage (paginate 1 ?st) = 1" by (simp add: paginate_def)
    with currentReceipts_page [of "paginate 1 ?st"] that show ?thesis
      by (simp add: filtered_paginate)
  qed
  show ?thesis using empty first
    by (auto simp: cp sv renderBody_def onSearchChange_def)
qed

theorem search_change_keeps_page_witness:
  "(currentPage page2State - 1) * 10 \<ge> int (length (filtered (onSearchChange ''BOB'' page2State))) \<and>
   length (filtered (onSearchChange ''BOB'' page2State)) > 0 \<and>
   currentPage (onSearchChange ''BOB'' page2State) = 2 \<and>
   currentReceipts (onSearchChange ''BOB'' page2State) = [] \<and>
   renderBody sampleFormatters (onSearchChange ''BOB'' page2State)
     = EmptyStateRow ''No receipts found matching your search.''"
proof -
  let ?st = "onSearchChange ''BOB'' page2State"
  have h1: "(currentPage page2State - 1) * 10 \<ge> int (length (filtered ?st))"
    by (simp add: bob_page2 page2_facts(1))
  have h2: "length (filtered ?st) > 0"
    by (simp add: bob_page2)
  from search_change_keeps_page [of "''BOB''" page2State sampleFormatters] h1 h2
  have "currentReceipts ?st = []"
    and "renderBody sampleFormatters ?st = EmptyStateRow
          (if ''BOB'' \<noteq> [] then ''No receipts found matching your search.''
           else ''No receipts found.'')"
    by blast+
  then show ?thesis using h1 h2 by (simp add: bob_page2(1))
qed

end
